theory Spec2Isabelle
  imports Complex_Main "HOL-Library.Sublist"
begin

section \<open>JavaScript strings and values\<close>

text \<open>
  Strings are lists of 8-bit characters and are read as ASCII text: \<open>toLowerCase\<close> and
  \<open>toUpperCase\<close> act on the 26 Latin letters and leave every other character as it is.
\<close>

definition upper_letters :: string where
  "upper_letters = ''ABCDEFGHIJKLMNOPQRSTUVWXYZ''"

definition lower_letters :: string where
  "lower_letters = ''abcdefghijklmnopqrstuvwxyz''"

definition toLowerChar :: "char \<Rightarrow> char" where
  "toLowerChar c = (case map_of (zip upper_letters lower_letters) c of Some d \<Rightarrow> d | None \<Rightarrow> c)"

definition toUpperChar :: "char \<Rightarrow> char" where
  "toUpperChar c = (case map_of (zip lower_letters upper_letters) c of Some d \<Rightarrow> d | None \<Rightarrow> c)"

definition toLowerCase :: "string \<Rightarrow> string" where
  "toLowerCase s = map toLowerChar s"

definition toUpperCase :: "string \<Rightarrow> string" where
  "toUpperCase s = map toUpperChar s"

text \<open>\<open>s.includes(k)\<close>: \<open>k\<close> occurs in \<open>s\<close> as a contiguous substring.\<close>

fun js_includes :: "string \<Rightarrow> string \<Rightarrow> bool" where
  "js_includes [] k = (k = [])"
| "js_includes (c # cs) k = (prefix k (c # cs) \<or> js_includes cs k)"

text \<open>The white space of \<open>\s\<close> and of \<open>trim()\<close>, within ASCII: tab, line feed, vertical
  tab, form feed, carriage return and space.\<close>

definition isSpace :: "char \<Rightarrow> bool" where
  "isSpace c = (c \<in> set [CHR 0x09, CHR 0x0A, CHR 0x0B, CHR 0x0C, CHR 0x0D, CHR 0x20])"

definition trim :: "string \<Rightarrow> string" where
  "trim s = rev (dropWhile isSpace (rev (dropWhile isSpace s)))"

text \<open>\<open>xs.join(sep)\<close> on an array of strings.\<close>

fun join :: "string \<Rightarrow> string list \<Rightarrow> string" where
  "join sep [] = []"
| "join sep [x] = x"
| "join sep (x # y # ys) = x @ sep @ join sep (y # ys)"

text \<open>
  The values a \<open>value\<close> field holds at run time. The declared type is \<open>string | null\<close>;
  \<open>JBuiltin\<close> stands for an object of the runtime (the function \<open>Object\<close>, the object
  \<open>Object.prototype\<close>), which a lookup in an object literal can return.
\<close>

datatype jsvalue = JNull | JStr string | JBuiltin string

text \<open>\<open>!v\<close>: \<open>null\<close> and the empty string are falsy, every object is truthy.\<close>

fun js_not :: "jsvalue \<Rightarrow> bool" where
  "js_not JNull = True"
| "js_not (JStr s) = (s = [])"
| "js_not (JBuiltin b) = False"

section \<open>Data model (aiParameterExtractor.ts)\<close>

datatype source = ai_extracted | user_confirmed | follow_up_question | default_source

record ExtractedParameter =
  value_f :: jsvalue
  confidence :: real
  source :: source

record ExtractedParameters =
  title :: ExtractedParameter
  type :: ExtractedParameter
  project :: ExtractedParameter
  priority :: ExtractedParameter
  description :: ExtractedParameter

definition createEmptyExtraction :: ExtractedParameters where
  "createEmptyExtraction =
     \<lparr>title = \<lparr>value_f = JNull, confidence = 0, source = ai_extracted\<rparr>,
      type = \<lparr>value_f = JNull, confidence = 0, source = ai_extracted\<rparr>,
      project = \<lparr>value_f = JNull, confidence = 0, source = ai_extracted\<rparr>,
      priority = \<lparr>value_f = JNull, confidence = 0, source = ai_extracted\<rparr>,
      description = \<lparr>value_f = JNull, confidence = 0, source = ai_extracted\<rparr>\<rparr>"

definition createDefaultExtraction :: ExtractedParameters where
  "createDefaultExtraction =
     \<lparr>title = \<lparr>value_f = JNull, confidence = 0, source = ai_extracted\<rparr>,
      type = \<lparr>value_f = JStr ''Bug'', confidence = 1.0, source = default_source\<rparr>,
      project = \<lparr>value_f = JStr ''FV Demo (Issues)'', confidence = 1.0, source = default_source\<rparr>,
      priority = \<lparr>value_f = JStr ''Medium'', confidence = 1.0, source = default_source\<rparr>,
      description = \<lparr>value_f = JNull, confidence = 0, source = ai_extracted\<rparr>\<rparr>"

subsection \<open>applyDefaults\<close>

definition default_type :: ExtractedParameter where
  "default_type = \<lparr>value_f = JStr ''Bug'', confidence = 1.0, source = default_source\<rparr>"

definition default_project :: ExtractedParameter where
  "default_project = \<lparr>value_f = JStr ''FV Demo (Issues)'', confidence = 1.0, source = default_source\<rparr>"

definition default_priority :: ExtractedParameter where
  "default_priority = \<lparr>value_f = JStr ''Medium'', confidence = 1.0, source = default_source\<rparr>"

text \<open>The three guarded assignments of \<open>applyDefaults\<close>, on a shallow copy of the argument.\<close>

definition applyDefaults :: "ExtractedParameters \<Rightarrow> ExtractedParameters" where
  "applyDefaults extracted =
     (let result = extracted;
          result = (if js_not (value_f (type result)) \<or> confidence (type result) < 0.6
                    then result\<lparr>type := default_type\<rparr> else result);
          result = (if js_not (value_f (project result)) \<or> confidence (project result) < 0.6
                    then result\<lparr>project := default_project\<rparr> else result);
          result = (if js_not (value_f (priority result)) \<or> confidence (priority result) < 0.6
                    then result\<lparr>priority := default_priority\<rparr> else result)
      in result)"

subsection \<open>validateRequiredParameters\<close>

record RequiredValidation =
  isValid :: bool
  missingRequired :: "string list"

definition validateRequiredParameters :: "ExtractedParameters \<Rightarrow> real \<Rightarrow> RequiredValidation" where
  "validateRequiredParameters extracted confidenceThreshold =
     (let missing = [];
          missing = (if js_not (value_f (title extracted))
                        \<or> confidence (title extracted) < confidenceThreshold
                     then missing @ [''title''] else missing);
          missing = (if js_not (value_f (description extracted))
                        \<or> confidence (description extracted) < confidenceThreshold
                     then missing @ [''description''] else missing)
      in \<lparr>isValid = (length missing = 0), missingRequired = missing\<rparr>)"

section \<open>Regular expressions\<close>

text \<open>
  The regular expressions of the source, as syntax trees, with a backtracking matcher that
  lists the ways a pattern can match at a position in the order in which the JavaScript
  matcher tries them: the first element is the match JavaScript reports. Greedy quantifiers
  list the longer alternatives first, lazy ones the shorter first; an iteration that
  consumes nothing is dropped, as the language's repeat matcher does.
\<close>

datatype crange = Range char char

datatype regex =
    Eps
  | Chr char
  | In "crange list"
  | NotIn "crange list"
  | Seq regex regex
  | Alt regex regex
  | Opt regex
  | Star regex
  | LazyStar regex
  | Group nat regex
  | Look regex
  | Eol
  | WordB

record mstate =
  prev :: "char option"
  rest :: string
  caps :: "(nat \<times> string) list"

text \<open>
  Characters are compared by their codes. With the flag \<open>i\<close> the matcher compares
  canonical (upper-cased) characters, so that a character matches a pattern character, or a
  class, when it or the same letter in the other case does.
\<close>

definition swapCase :: "nat \<Rightarrow> nat" where
  "swapCase n = (if 97 \<le> n \<and> n \<le> 122 then n - 32
                 else if 65 \<le> n \<and> n \<le> 90 then n + 32 else n)"

fun inRange :: "nat \<Rightarrow> crange \<Rightarrow> bool" where
  "inRange n (Range lo hi) = (of_char lo \<le> n \<and> n \<le> of_char hi)"

definition matchesChar :: "bool \<Rightarrow> char \<Rightarrow> char \<Rightarrow> bool" where
  "matchesChar icase c x =
     (of_char x = (of_char c :: nat) \<or> (icase \<and> swapCase (of_char x) = of_char c))"

definition matchesClass :: "bool \<Rightarrow> crange list \<Rightarrow> char \<Rightarrow> bool" where
  "matchesClass icase cs x =
     (list_ex (inRange (of_char x)) cs \<or> (icase \<and> list_ex (inRange (swapCase (of_char x))) cs))"

text \<open>\<open>[A-Z]\<close>, \<open>[A-Z0-9]\<close>, \<open>\s\<close> (within ASCII) and \<open>\w\<close>.\<close>

definition upperAZ :: "crange list" where
  "upperAZ = [Range CHR ''A'' CHR ''Z'']"

definition upperAZ09 :: "crange list" where
  "upperAZ09 = [Range CHR ''A'' CHR ''Z'', Range CHR ''0'' CHR ''9'']"

definition spaces :: "crange list" where
  "spaces = [Range (CHR 0x09) (CHR 0x0D), Range (CHR 0x20) (CHR 0x20)]"

definition word_chars :: "crange list" where
  "word_chars = [Range CHR ''a'' CHR ''z'', Range CHR ''A'' CHR ''Z'', Range CHR ''0'' CHR ''9'',
     Range CHR ''_'' CHR ''_'']"

definition isWordChar :: "char option \<Rightarrow> bool" where
  "isWordChar c = (case c of None \<Rightarrow> False | Some x \<Rightarrow> matchesClass False word_chars x)"

definition shorter :: "mstate \<Rightarrow> mstate \<Rightarrow> bool" where
  "shorter s s' = (length (rest s') < length (rest s))"

function (sequential) ms :: "bool \<Rightarrow> regex \<Rightarrow> mstate \<Rightarrow> mstate list" where
  "ms i Eps s = [s]"
| "ms i (Chr c) s =
     (case rest s of [] \<Rightarrow> []
      | x # xs \<Rightarrow> if matchesChar i c x then [s\<lparr>prev := Some x, rest := xs\<rparr>] else [])"
| "ms i (In cs) s =
     (case rest s of [] \<Rightarrow> []
      | x # xs \<Rightarrow> if matchesClass i cs x then [s\<lparr>prev := Some x, rest := xs\<rparr>] else [])"
| "ms i (NotIn cs) s =
     (case rest s of [] \<Rightarrow> []
      | x # xs \<Rightarrow> if matchesClass i cs x then [] else [s\<lparr>prev := Some x, rest := xs\<rparr>])"
| "ms i (Seq r1 r2) s = concat (map (\<lambda>s'. ms i r2 s') (ms i r1 s))"
| "ms i (Alt r1 r2) s = ms i r1 s @ ms i r2 s"
| "ms i (Opt r) s = filter (shorter s) (ms i r s) @ [s]"
| "ms i (Star r) s =
     concat (map (\<lambda>s'. ms i (Star r) s') (filter (shorter s) (ms i r s))) @ [s]"
| "ms i (LazyStar r) s =
     s # concat (map (\<lambda>s'. ms i (LazyStar r) s') (filter (shorter s) (ms i r s)))"
| "ms i (Group n r) s =
     map (\<lambda>s'. s'\<lparr>caps := (n, take (length (rest s) - length (rest s')) (rest s))
                              # filter (\<lambda>p. fst p \<noteq> n) (caps s')\<rparr>) (ms i r s)"
| "ms i (Look r) s = (if ms i r s = [] then [] else [s])"
| "ms i Eol s = (if rest s = [] then [s] else [])"
| "ms i WordB s =
     (if isWordChar (prev s) = isWordChar (case rest s of [] \<Rightarrow> None | x # xs \<Rightarrow> Some x)
      then [] else [s])"
  by pat_completeness auto

termination ms
  by (relation "measures [\<lambda>(i, r, s). size r, \<lambda>(i, r, s). length (rest s)]")
     (auto simp add: shorter_def)

text \<open>A literal string, character by character; \<open>r+\<close> and \<open>r+?\<close>.\<close>

fun lit :: "string \<Rightarrow> regex" where
  "lit [] = Eps"
| "lit [c] = Chr c"
| "lit (c # cs) = Seq (Chr c) (lit cs)"

definition Plus :: "regex \<Rightarrow> regex" where
  "Plus r = Seq r (Star r)"

definition LazyPlus :: "regex \<Rightarrow> regex" where
  "LazyPlus r = Seq r (LazyStar r)"

definition re_space :: regex where
  "re_space = In spaces"

definition re_word :: regex where
  "re_word = In word_chars"

text \<open>
  \<open>input.match(r)\<close> for a pattern without the flag \<open>g\<close>: the leftmost position at which
  the pattern matches, the matched text and the captured groups; \<open>None\<close> is \<open>null\<close>.
\<close>

record js_match_result =
  matched :: string
  groups :: "(nat \<times> string) list"

fun exec_from :: "bool \<Rightarrow> regex \<Rightarrow> char option \<Rightarrow> string \<Rightarrow> js_match_result option" where
  "exec_from i r p [] =
     (case ms i r \<lparr>prev = p, rest = [], caps = []\<rparr> of
        [] \<Rightarrow> None
      | s' # _ \<Rightarrow> Some \<lparr>matched = [], groups = caps s'\<rparr>)"
| "exec_from i r p (x # xs) =
     (case ms i r \<lparr>prev = p, rest = x # xs, caps = []\<rparr> of
        [] \<Rightarrow> exec_from i r (Some x) xs
      | s' # _ \<Rightarrow> Some \<lparr>matched = take (length (x # xs) - length (rest s')) (x # xs),
                           groups = caps s'\<rparr>)"

definition js_match :: "bool \<Rightarrow> regex \<Rightarrow> string \<Rightarrow> js_match_result option" where
  "js_match i r input = exec_from i r None input"

text \<open>\<open>match[n]\<close>. In every pattern below group 1 takes part in every match, so the
  case of a group that did not take part (\<open>undefined\<close> in JavaScript) does not arise.\<close>

definition group :: "js_match_result \<Rightarrow> nat \<Rightarrow> string" where
  "group m n = (case map_of (groups m) n of Some t \<Rightarrow> t | None \<Rightarrow> [])"

text \<open>\<open>input.replace(r, rep)\<close> for a pattern with the flag \<open>g\<close> and a replacement text
  without group references: every match, left to right, is replaced.\<close>

function replace_all :: "bool \<Rightarrow> regex \<Rightarrow> string \<Rightarrow> char option \<Rightarrow> string \<Rightarrow> string" where
  "replace_all i r rep p s =
     (case ms i r \<lparr>prev = p, rest = s, caps = []\<rparr> of
        [] \<Rightarrow> (case s of [] \<Rightarrow> [] | x # xs \<Rightarrow> x # replace_all i r rep (Some x) xs)
      | s' # _ \<Rightarrow>
          if length (rest s') < length s
          then rep @ replace_all i r rep (prev s') (rest s')
          else rep @ (case s of [] \<Rightarrow> [] | x # xs \<Rightarrow> x # replace_all i r rep (Some x) xs))"
  by pat_completeness auto

termination replace_all
  by (relation "measure (\<lambda>(i, r, rep, p, s). length s)") auto

section \<open>Lexical extractor and intent probes (informationExtractor.ts)\<close>

text \<open>
  Modelled from the spec: \<open>types.ts\<close> is not under src/. \<open>IssueData\<close> is the issue
  descriptor of section 3 of the specification (title, project, issueType, priority,
  description), every member optional because the code builds it member by member
  (\<open>Partial<IssueData>\<close>). The member names carry the suffix \<open>_d\<close> where they would
  clash with the members of \<open>ExtractedParameters\<close>.
\<close>

record 'v IssueData =
  project_d :: "'v option"
  issueType :: "'v option"
  title_d :: "'v option"
  description_d :: "'v option"
  priority_d :: "'v option"

definition emptyIssueData :: "'v IssueData" where
  "emptyIssueData =
     \<lparr>project_d = None, issueType = None, title_d = None, description_d = None,
      priority_d = None\<rparr>"

subsection \<open>Normalisation helpers\<close>

definition normalizeIssueType :: "string \<Rightarrow> string" where
  "normalizeIssueType t =
     (let normalized = toLowerCase t in
      if normalized = ''bug'' then ''Bug''
      else if normalized = ''task'' then ''Task''
      else if normalized = ''story'' then ''Story''
      else if normalized = ''epic'' then ''Epic''
      else toUpperCase (take 1 t) @ drop 1 t)"

definition normalizePriority :: "string \<Rightarrow> string" where
  "normalizePriority p =
     (let normalized = toLowerCase p in
      if normalized = ''lowest'' \<or> normalized = ''very low'' \<or> normalized = ''trivial''
      then ''Lowest''
      else if normalized = ''low'' \<or> normalized = ''minor'' then ''Low''
      else if normalized = ''medium'' \<or> normalized = ''normal'' \<or> normalized = ''standard''
      then ''Medium''
      else if normalized = ''high'' \<or> normalized = ''important'' \<or> normalized = ''urgent''
              \<or> normalized = ''major''
      then ''High''
      else if normalized = ''highest'' \<or> normalized = ''critical'' \<or> normalized = ''blocker''
              \<or> normalized = ''severe''
      then ''Highest''
      else toUpperCase (take 1 p) @ drop 1 p)"



subsection \<open>extractExplicitInformation\<close>

text \<open>\<^verbatim>\<open>/(?:project|in)\s+([A-Z]+(?:[A-Z0-9]*)?)/i\<close> and
  \<^verbatim>\<open>/([A-Z]+(?:[A-Z0-9]*)?)\s+project/i\<close>\<close>

definition projectKey :: regex where
  "projectKey = Seq (Plus (In upperAZ)) (Opt (Star (In upperAZ09)))"

definition projectPatterns :: "regex list" where
  "projectPatterns =
     [Seq (Alt (lit ''project'') (lit ''in'')) (Seq (Plus re_space) (Group 1 projectKey)),
      Seq (Group 1 projectKey) (Seq (Plus re_space) (lit ''project''))]"

text \<open>\<^verbatim>\<open>/create\s+(?:a\s+)?(\w+)/i\<close>, \<^verbatim>\<open>/new\s+(\w+)/i\<close> and
  \<^verbatim>\<open>/(?:report|log)\s+(?:a\s+)?(\w+)/i\<close>\<close>

definition typePatterns :: "regex list" where
  "typePatterns =
     [Seq (lit ''create'') (Seq (Plus re_space)
        (Seq (Opt (Seq (Chr CHR ''a'') (Plus re_space))) (Group 1 (Plus re_word)))),
      Seq (lit ''new'') (Seq (Plus re_space) (Group 1 (Plus re_word))),
      Seq (Alt (lit ''report'') (lit ''log'')) (Seq (Plus re_space)
        (Seq (Opt (Seq (Chr CHR ''a'') (Plus re_space))) (Group 1 (Plus re_word))))]"

text \<open>\<^verbatim>\<open>/\b(low|medium|high|critical)\s+priority\b/i\<close>,
  \<^verbatim>\<open>/priority\s+(?:is\s+|of\s+)?(\w+)/i\<close> and
  \<^verbatim>\<open>/\b(urgent|critical|important)\b/i\<close>\<close>

definition priorityPatterns :: "regex list" where
  "priorityPatterns =
     [Seq WordB (Seq (Group 1 (Alt (lit ''low'') (Alt (lit ''medium'')
          (Alt (lit ''high'') (lit ''critical'')))))
        (Seq (Plus re_space) (Seq (lit ''priority'') WordB))),
      Seq (lit ''priority'') (Seq (Plus re_space)
        (Seq (Opt (Alt (Seq (lit ''is'') (Plus re_space)) (Seq (lit ''of'') (Plus re_space))))
          (Group 1 (Plus re_word)))),
      Seq WordB (Seq (Group 1 (Alt (lit ''urgent'') (Alt (lit ''critical'') (lit ''important''))))
        WordB)]"

text \<open>\<^verbatim>\<open>/"([^"]+)"/\<close>, the character \<open>"\<close> being \<open>CHR 0x22\<close>.\<close>

definition quotedPattern :: regex where
  "quotedPattern =
     Seq (Chr (CHR 0x22)) (Seq (Group 1 (Plus (NotIn [Range (CHR 0x22) (CHR 0x22)])))
       (Chr (CHR 0x22)))"

text \<open>The three \<open>for\<close> loops over the pattern lists, each leaving at its \<open>break\<close>.\<close>

fun projectLoop :: "regex list \<Rightarrow> string \<Rightarrow> string option" where
  "projectLoop [] userInput = None"
| "projectLoop (pattern # patterns) userInput =
     (case js_match True pattern userInput of
        None \<Rightarrow> projectLoop patterns userInput
      | Some m \<Rightarrow>
          if length (group m 1) \<le> 10 then Some (toUpperCase (group m 1))
          else projectLoop patterns userInput)"

fun typeLoop :: "regex list \<Rightarrow> string \<Rightarrow> string option" where
  "typeLoop [] userInput = None"
| "typeLoop (pattern # patterns) userInput =
     (case js_match True pattern userInput of
        None \<Rightarrow> typeLoop patterns userInput
      | Some m \<Rightarrow>
          (let type = toLowerCase (group m 1) in
           if type \<in> set [''bug'', ''task'', ''story'', ''epic'', ''issue'', ''ticket'']
           then (if type = ''issue'' \<or> type = ''ticket'' then None
                 else Some (normalizeIssueType type))
           else typeLoop patterns userInput))"

fun priorityLoop :: "regex list \<Rightarrow> string \<Rightarrow> string option" where
  "priorityLoop [] userInput = None"
| "priorityLoop (pattern # patterns) userInput =
     (case js_match True pattern userInput of
        None \<Rightarrow> priorityLoop patterns userInput
      | Some m \<Rightarrow> Some (normalizePriority (toLowerCase (group m 1))))"

definition extractExplicitInformation :: "string \<Rightarrow> string IssueData" where
  "extractExplicitInformation userInput =
     \<lparr>project_d = projectLoop projectPatterns userInput,
      issueType = typeLoop typePatterns userInput,
      title_d = (case js_match False quotedPattern userInput of
                   None \<Rightarrow> None | Some quotedMatch \<Rightarrow> Some (group quotedMatch 1)),
      description_d = None,
      priority_d = priorityLoop priorityPatterns userInput\<rparr>"

subsection \<open>Intent probes\<close>

definition detectsChatIntent :: "string \<Rightarrow> bool" where
  "detectsChatIntent userInput =
     (let lowerInput = toLowerCase userInput;
          chatKeywords = [''hello'', ''hi'', ''help'', ''what can you do'', ''how do you work'',
             ''what are your capabilities'', ''tell me about'', ''explain'',
             ''how to'', ''what is'', ''who are you'', ''what are you''];
          hasExplicitChatKeyword = list_ex (\<lambda>keyword. js_includes lowerInput keyword) chatKeywords;
          isQuestion = (js_includes lowerInput ''?'' \<and>
             \<not> js_includes lowerInput ''issue'' \<and>
             \<not> js_includes lowerInput ''ticket'' \<and>
             \<not> js_includes lowerInput ''bug'' \<and>
             \<not> js_includes lowerInput ''task'' \<and>
             \<not> js_includes lowerInput ''story'' \<and>
             \<not> js_includes lowerInput ''epic'')
      in hasExplicitChatKeyword \<or> isQuestion)"

definition detectsIssuePattern :: "string \<Rightarrow> bool" where
  "detectsIssuePattern userInput =
     (let lowerInput = toLowerCase userInput;
          hasTitleDescFormat = (js_includes lowerInput ''title:'' \<and>
             (js_includes lowerInput ''description:''
              \<or> js_includes lowerInput ''issue description:''));
          problemIndicators = [''not working'', ''broken'', ''error'', ''issue with'',
             ''problem with'', ''unable to'', ''can't'', ''cannot'', ''fails to'',
             ''doesn't work'', ''bug in'', ''issue in'', ''problem in''];
          hasProblemIndicator =
             list_ex (\<lambda>indicator. js_includes lowerInput indicator) problemIndicators;
          featureIndicators = [''need'', ''want'', ''would like'', ''should have'', ''missing'',
             ''add feature'', ''new feature'', ''enhancement'', ''improvement''];
          hasFeatureIndicator =
             list_ex (\<lambda>indicator. js_includes lowerInput indicator) featureIndicators
      in hasTitleDescFormat \<or> hasProblemIndicator \<or> hasFeatureIndicator)"

definition detectsIssueCreationIntent :: "string \<Rightarrow> bool" where
  "detectsIssueCreationIntent userInput =
     (let lowerInput = toLowerCase userInput;
          creationKeywords = [''create'', ''new'', ''make'', ''add'', ''report'', ''log'',
             ''submit''];
          issueKeywords = [''issue'', ''ticket'', ''bug'', ''task'', ''story'', ''epic'',
             ''problem''];
          hasCreationKeyword =
             list_ex (\<lambda>keyword. js_includes lowerInput keyword) creationKeywords;
          hasIssueKeyword = list_ex (\<lambda>keyword. js_includes lowerInput keyword) issueKeywords;
          hasIssuePattern = detectsIssuePattern userInput
      in (hasCreationKeyword \<and> hasIssueKeyword) \<or> hasIssuePattern)"

definition detectsSearchIntent :: "string \<Rightarrow> bool" where
  "detectsSearchIntent userInput =
     (let lowerInput = toLowerCase userInput in
      (js_includes lowerInput ''search'' \<or> js_includes lowerInput ''find'') \<and>
      (js_includes lowerInput ''issue'' \<or> js_includes lowerInput ''ticket'') \<and>
      \<not> detectsIssueCreationIntent userInput)"

text \<open>\<^verbatim>\<open>/search|find|for|issues?|tickets?/gi\<close>\<close>

definition searchWords :: regex where
  "searchWords =
     Alt (lit ''search'') (Alt (lit ''find'') (Alt (lit ''for'')
       (Alt (Seq (lit ''issue'') (Opt (Chr CHR ''s'')))
            (Seq (lit ''ticket'') (Opt (Chr CHR ''s''))))))"

definition extractSearchQuery :: "string \<Rightarrow> string" where
  "extractSearchQuery userInput = trim (replace_all True searchWords [] None userInput)"

section \<open>Parameter extractor (aiParameterExtractor.ts)\<close>

datatype js_error = Error string | TypeError | SyntaxError | CompletionFailed

subsection \<open>fallbackExtraction\<close>

text \<open>\<open>['"]\<close> and \<open>[,\n]\<close>\<close>

definition quoteChars :: "crange list" where
  "quoteChars = [Range (CHR 0x27) (CHR 0x27), Range (CHR 0x22) (CHR 0x22)]"

definition commaNewline :: "crange list" where
  "commaNewline = [Range CHR '','' CHR '','', Range (CHR 0x0A) (CHR 0x0A)]"

text \<open>\<^verbatim>\<open>/Title:\s*['"]([^'"]+)['"]/i\<close> and
  \<^verbatim>\<open>/Title:\s*([^,\n]+?)(?=\s+(?:Issue Description|Description|$))/i\<close>\<close>

definition titlePatterns :: "regex list" where
  "titlePatterns =
     [Seq (lit ''Title:'') (Seq (Star re_space)
        (Seq (In quoteChars) (Seq (Group 1 (Plus (NotIn quoteChars))) (In quoteChars)))),
      Seq (lit ''Title:'') (Seq (Star re_space)
        (Seq (Group 1 (LazyPlus (NotIn commaNewline)))
          (Look (Seq (Plus re_space)
             (Alt (lit ''Issue Description'') (Alt (lit ''Description'') Eol))))))]"

text \<open>\<^verbatim>\<open>/Issue Description:\s*['"]([^'"]+)['"]/i\<close>,
  \<^verbatim>\<open>/Description:\s*['"]([^'"]+)['"]/i\<close>,
  \<^verbatim>\<open>/Issue Description:\s*([^,\n]+?)$/i\<close> and
  \<^verbatim>\<open>/Description:\s*([^,\n]+?)$/i\<close>\<close>

definition descriptionPatterns :: "regex list" where
  "descriptionPatterns =
     [Seq (lit ''Issue Description:'') (Seq (Star re_space)
        (Seq (In quoteChars) (Seq (Group 1 (Plus (NotIn quoteChars))) (In quoteChars)))),
      Seq (lit ''Description:'') (Seq (Star re_space)
        (Seq (In quoteChars) (Seq (Group 1 (Plus (NotIn quoteChars))) (In quoteChars)))),
      Seq (lit ''Issue Description:'') (Seq (Star re_space)
        (Seq (Group 1 (LazyPlus (NotIn commaNewline))) Eol)),
      Seq (lit ''Description:'') (Seq (Star re_space)
        (Seq (Group 1 (LazyPlus (NotIn commaNewline))) Eol))]"

text \<open>The loop of \<open>fallbackExtraction\<close>: the first pattern that matches with a group 1
  that is not blank gives the field, trimmed.\<close>

fun fallbackLoop :: "regex list \<Rightarrow> string \<Rightarrow> string option" where
  "fallbackLoop [] userInput = None"
| "fallbackLoop (pattern # patterns) userInput =
     (case js_match True pattern userInput of
        None \<Rightarrow> fallbackLoop patterns userInput
      | Some m \<Rightarrow>
          if trim (group m 1) = [] then fallbackLoop patterns userInput
          else Some (trim (group m 1)))"

definition fallbackExtraction :: "string \<Rightarrow> ExtractedParameters" where
  "fallbackExtraction userInput =
     (let result = createEmptyExtraction;
          result = (case fallbackLoop titlePatterns userInput of
                      None \<Rightarrow> result
                    | Some t \<Rightarrow> result\<lparr>title :=
                        \<lparr>value_f = JStr t, confidence = 0.9, source = ai_extracted\<rparr>\<rparr>);
          result = (case fallbackLoop descriptionPatterns userInput of
                      None \<Rightarrow> result
                    | Some d \<Rightarrow> result\<lparr>description :=
                        \<lparr>value_f = JStr d, confidence = 0.9, source = ai_extracted\<rparr>\<rparr>)
      in result)"

subsection \<open>parseAIResponse and normalizeParameter\<close>

text \<open>
  What \<open>JSON.parse\<close> returns, as far as \<open>parseAIResponse\<close> reads it, for documents of
  the wire shape of section 6 of the specification (a value that is a string or null, a
  confidence that is a number). A member of the document is \<open>WMissing\<close> when it is absent,
  null or not an object (an array has neither member, so it counts as missing too);
  otherwise it carries its \<open>value\<close> (\<open>None\<close>: absent or null) and its \<open>confidence\<close>
  (\<open>None\<close>: absent or null). \<open>ParsedNull\<close> is the document \<open>null\<close>, on which reading a
  member throws. Documents with a value or a confidence of another JSON type are outside
  this model.
\<close>

datatype wire_param = WMissing | WObj "string option" "real option"

record wire_doc =
  w_title :: wire_param
  w_type :: wire_param
  w_project :: wire_param
  w_priority :: wire_param
  w_description :: wire_param

datatype parsed = ParsedNull | ParsedDoc wire_doc

definition normalizeParameter :: "wire_param \<Rightarrow> ExtractedParameter" where
  "normalizeParameter param =
     (case param of
        WMissing \<Rightarrow> \<lparr>value_f = JNull, confidence = 0, source = ai_extracted\<rparr>
      | WObj v c \<Rightarrow>
          \<lparr>value_f = (case v of None \<Rightarrow> JNull
                               | Some s \<Rightarrow> if s = [] then JNull else JStr s),
           confidence = max 0 (min 1 (case c of None \<Rightarrow> 0 | Some r \<Rightarrow> r)),
           source = ai_extracted\<rparr>)"

text \<open>\<^verbatim>\<open>/```json\n?/g\<close>, \<^verbatim>\<open>/```\n?/g\<close> and \<^verbatim>\<open>/\{[\s\S]*\}/\<close>\<close>

definition cleanResponse :: "string \<Rightarrow> string" where
  "cleanResponse response =
     (let cleaned = trim response;
          cleaned = replace_all False (Seq (lit ''```json'') (Opt (Chr (CHR 0x0A)))) [] None cleaned;
          cleaned = replace_all False (Seq (lit ''```'') (Opt (Chr (CHR 0x0A)))) [] None cleaned
      in case js_match False (Seq (Chr CHR ''{'') (Seq (Star (NotIn [])) (Chr CHR ''}''))) cleaned of
           None \<Rightarrow> cleaned
         | Some jsonMatch \<Rightarrow> matched jsonMatch)"

text \<open>\<open>JSON.parse\<close> belongs to the runtime and is a parameter: \<open>None\<close> is its
  \<open>SyntaxError\<close>. Both that error and the \<open>TypeError\<close> of reading a member of \<open>null\<close>
  are caught inside \<open>parseAIResponse\<close>.\<close>

definition parseAIResponse :: "(string \<Rightarrow> parsed option) \<Rightarrow> string \<Rightarrow> ExtractedParameters" where
  "parseAIResponse json_parse response =
     (case json_parse (cleanResponse response) of
        None \<Rightarrow> createEmptyExtraction
      | Some ParsedNull \<Rightarrow> createEmptyExtraction
      | Some (ParsedDoc d) \<Rightarrow>
          \<lparr>title = normalizeParameter (w_title d),
           type = normalizeParameter (w_type d),
           project = normalizeParameter (w_project d),
           priority = normalizeParameter (w_priority d),
           description = normalizeParameter (w_description d)\<rparr>)"

subsection \<open>extractParameters\<close>

text \<open>
  The completion capability is external. Its outcome for the request built from the input
  is a parameter: \<open>Inl\<close> when the call throws, \<open>Inr\<close> the content of the first choice
  (the empty string when there is none). \<open>preprocessProjectMentions\<close> and
  \<open>buildExtractionPrompt\<close> only rewrite the text of the request and cannot throw, so they
  do not appear here.
\<close>

definition extractParameters_try ::
  "(string \<Rightarrow> parsed option) \<Rightarrow> js_error + string \<Rightarrow> string \<Rightarrow> js_error + ExtractedParameters" where
  "extractParameters_try json_parse completion userInput =
     (case completion of
        Inl e \<Rightarrow> Inl e
      | Inr response \<Rightarrow>
          if response = [] then Inl (Error ''No response from AI extraction'')
          else
            (let extracted = parseAIResponse json_parse response;
                 extracted =
                   (if (js_not (value_f (title extracted))
                          \<or> js_not (value_f (description extracted)))
                       \<and> (js_includes userInput ''Title:''
                            \<or> js_includes userInput ''Description:'')
                    then
                      (let fallback = fallbackExtraction userInput;
                           extracted =
                             (if js_not (value_f (title extracted))
                                 \<and> \<not> js_not (value_f (title fallback))
                              then extracted\<lparr>title := title fallback\<rparr> else extracted);
                           extracted =
                             (if js_not (value_f (description extracted))
                                 \<and> \<not> js_not (value_f (description fallback))
                              then extracted\<lparr>description := description fallback\<rparr>
                              else extracted)
                       in extracted)
                    else extracted)
             in Inr (applyDefaults extracted)))"

definition extractParameters ::
  "(string \<Rightarrow> parsed option) \<Rightarrow> js_error + string \<Rightarrow> string \<Rightarrow> ExtractedParameters" where
  "extractParameters json_parse completion userInput =
     (case extractParameters_try json_parse completion userInput of
        Inr extractedWithDefaults \<Rightarrow> extractedWithDefaults
      | Inl err \<Rightarrow>
          (let fallback = fallbackExtraction userInput;
               fallbackWithDefaults = applyDefaults fallback
           in if \<not> js_not (value_f (title fallbackWithDefaults))
                 \<or> \<not> js_not (value_f (description fallbackWithDefaults))
              then fallbackWithDefaults
              else createDefaultExtraction))"

subsection \<open>validateExtractedParameters\<close>

definition projectMapping :: "(string \<times> string) list" where
  "projectMapping =
     [(''fv demo product'', ''FV Demo (Product)''),
      (''demo product'', ''FV Demo (Product)''),
      (''fv demo (product)'', ''FV Demo (Product)''),
      (''dpd'', ''FV Demo (Product)''),
      (''fv demo issues'', ''FV Demo (Issues)''),
      (''demo issues'', ''FV Demo (Issues)''),
      (''fv demo (issues)'', ''FV Demo (Issues)''),
      (''demo'', ''FV Demo (Issues)''),
      (''fvdemo'', ''FV Demo (Issues)''),
      (''dpi'', ''FV Demo (Issues)''),
      (''issues'', ''FV Demo (Issues)''),
      (''fv engineering'', ''FV Engineering''),
      (''engineering'', ''FV Engineering''),
      (''eng'', ''FV Engineering''),
      (''fv product'', ''FV Product''),
      (''prod'', ''FV Product'')]"

text \<open>
  \<open>projectMapping\<close> is an object literal and \<open>projectMapping[key]\<close> a property read: a
  key that is not a member of the literal is looked up in \<open>Object.prototype\<close>, whose
  members are functions and objects of the runtime. \<open>None\<close> is \<open>undefined\<close>.
\<close>

definition objectPrototypeMembers :: "string list" where
  "objectPrototypeMembers =
     [''constructor'', ''__proto__'', ''hasOwnProperty'', ''isPrototypeOf'',
      ''propertyIsEnumerable'', ''toLocaleString'', ''toString'', ''valueOf'',
      ''__defineGetter__'', ''__defineSetter__'', ''__lookupGetter__'', ''__lookupSetter__'']"

definition js_property :: "(string \<times> string) list \<Rightarrow> string \<Rightarrow> jsvalue option" where
  "js_property obj key =
     (case map_of obj key of
        Some v \<Rightarrow> Some (JStr v)
      | None \<Rightarrow> if key \<in> set objectPrototypeMembers
                then Some (JBuiltin (''Object.prototype.'' @ key)) else None)"

definition validTypes :: "string list" where
  "validTypes = [''Bug'', ''Task'', ''Story'', ''Epic'']"

definition validPriorities :: "string list" where
  "validPriorities = [''Lowest'', ''Low'', ''Medium'', ''High'', ''Highest'']"

definition validFullNames :: "string list" where
  "validFullNames = [''FV Demo (Product)'', ''FV Demo (Issues)'', ''FV Engineering'', ''FV Product'']"

definition validateType :: "ExtractedParameters \<Rightarrow> ExtractedParameters" where
  "validateType validated =
     (if js_not (value_f (type validated)) then validated
      else if value_f (type validated) \<in> set (map JStr validTypes) then validated
      else validated\<lparr>type := \<lparr>value_f = JStr ''Bug'', confidence = 1.0, source = default_source\<rparr>\<rparr>)"

definition validatePriority :: "ExtractedParameters \<Rightarrow> ExtractedParameters" where
  "validatePriority validated =
     (if js_not (value_f (priority validated)) then validated
      else if value_f (priority validated) \<in> set (map JStr validPriorities) then validated
      else validated\<lparr>priority :=
             \<lparr>value_f = JStr ''Medium'', confidence = 1.0, source = default_source\<rparr>\<rparr>)"

text \<open>The project block. \<open>toLowerCase\<close> is a method of strings only: on a value that is
  not a string the call throws a \<open>TypeError\<close>.\<close>

definition validateProject :: "ExtractedParameters \<Rightarrow> js_error + ExtractedParameters" where
  "validateProject validated =
     (if js_not (value_f (project validated)) then Inr validated
      else
        (case value_f (project validated) of
           JStr s \<Rightarrow>
             (let normalizedProject = trim (toLowerCase s) in
              case js_property projectMapping normalizedProject of
                Some mappedProject \<Rightarrow>
                  Inr (validated\<lparr>project := (project validated)\<lparr>value_f := mappedProject\<rparr>\<rparr>)
              | None \<Rightarrow>
                  (case find (\<lambda>name. toLowerCase name = normalizedProject
                                       \<or> normalizedProject = name) validFullNames of
                     Some matchingFullName \<Rightarrow>
                       Inr (validated\<lparr>project :=
                              (project validated)\<lparr>value_f := JStr matchingFullName\<rparr>\<rparr>)
                   | None \<Rightarrow>
                       if normalizedProject = ''product'' \<or> normalizedProject = ''fv''
                       then Inr (validated\<lparr>project := \<lparr>value_f = JStr ''FV Demo (Issues)'',
                                    confidence = 1.0, source = default_source\<rparr>\<rparr>)
                       else Inr (validated\<lparr>project := \<lparr>value_f = JStr ''FV Demo (Issues)'',
                                    confidence = 1.0, source = default_source\<rparr>\<rparr>)))
         | _ \<Rightarrow> Inl TypeError))"

definition validateExtractedParameters :: "ExtractedParameters \<Rightarrow> js_error + ExtractedParameters" where
  "validateExtractedParameters extracted =
     validateProject (validatePriority (validateType extracted))"

section \<open>Conversation flow controller (conversationManager.ts)\<close>

text \<open>
  Modelled from the spec: \<open>types.ts\<close> is not under src/. The steps are the states of
  section 4.4 of the specification, and the conversation state has the members that
  \<open>index.ts\<close> initialises and section 3 lists.
\<close>

datatype IssueCreationStep =
    DETECTING_INTENT | AI_EXTRACTING | CONFIRMING_DETAILS
  | ASKING_PROJECT | ASKING_TYPE | ASKING_TITLE | ASKING_DESCRIPTION | ASKING_PRIORITY
  | READY_TO_CREATE

record ConversationState =
  isCreatingIssue :: bool
  issueData :: "jsvalue IssueData"
  currentStep :: IssueCreationStep
  hasAskedFor :: "string set"
  extractedParameters :: "ExtractedParameters option"
  missingParameters :: "string list option"
  pendingValidation :: "string set"

text \<open>The state \<open>index.ts\<close> creates for a request.\<close>

definition initialState :: ConversationState where
  "initialState =
     \<lparr>isCreatingIssue = False, issueData = emptyIssueData, currentStep = DETECTING_INTENT,
      hasAskedFor = {}, extractedParameters = None, missingParameters = None,
      pendingValidation = {}\<rparr>"

text \<open>
  Modelled from the spec: \<open>IssueCreationFlow.resetState\<close> (\<open>issueCreationFlow.ts\<close> is
  not under src/). Section 4.4: it "clears \<open>isCreatingIssue\<close>, \<open>currentStep\<close>,
  \<open>issueData\<close>, \<open>hasAskedFor\<close>, and extraction results back to their initial values".
\<close>

definition resetState :: "ConversationState \<Rightarrow> ConversationState" where
  "resetState state =
     state\<lparr>isCreatingIssue := False, currentStep := DETECTING_INTENT,
            issueData := emptyIssueData, hasAskedFor := {}, extractedParameters := None\<rparr>"

text \<open>
  The other methods of \<open>IssueCreationFlow\<close> that the controller calls are parameters: the
  cancellation test, the traditional flow's start, its choice of the next step, its
  question for a step, and its processing of an answer, which returns a result and the
  state it has updated.
\<close>

record ProcessResult =
  success :: bool
  errorMessage :: "string option"
  resultValue :: "string option"

record IssueCreationFlow =
  checkForCancellation :: "string \<Rightarrow> bool"
  startIssueCreation :: "string \<Rightarrow> ConversationState \<Rightarrow> ConversationState"
  determineNextStep :: "ConversationState \<Rightarrow> IssueCreationStep"
  getQuestionForStep :: "IssueCreationStep \<Rightarrow> string"
  processResponse ::
    "string \<Rightarrow> IssueCreationStep \<Rightarrow> ConversationState \<Rightarrow> ProcessResult \<times> ConversationState"

datatype action = continue | create_issue | search | cancel | regular_chat | error

record FlowResult =
  action :: action
  message :: "string option"
  searchQuery :: "string option"

definition convertExtractedToIssueData ::
  "ExtractedParameters \<Rightarrow> ConversationState \<Rightarrow> ConversationState" where
  "convertExtractedToIssueData extracted state =
     (let d = issueData state;
          d = (if js_not (value_f (title extracted)) then d
               else d\<lparr>title_d := Some (value_f (title extracted))\<rparr>);
          d = (if js_not (value_f (type extracted)) then d
               else d\<lparr>issueType := Some (value_f (type extracted))\<rparr>);
          d = (if js_not (value_f (project extracted)) then d
               else d\<lparr>project_d := Some (value_f (project extracted))\<rparr>);
          d = (if js_not (value_f (priority extracted)) then d
               else d\<lparr>priority_d := Some (value_f (priority extracted))\<rparr>);
          d = (if js_not (value_f (description extracted)) then d
               else d\<lparr>description_d := Some (value_f (description extracted))\<rparr>)
      in state\<lparr>issueData := d\<rparr>)"

definition markStepAsAsked :: "IssueCreationStep \<Rightarrow> ConversationState \<Rightarrow> ConversationState" where
  "markStepAsAsked step state =
     (case step of
        ASKING_PROJECT \<Rightarrow> state\<lparr>hasAskedFor := insert ''project'' (hasAskedFor state)\<rparr>
      | ASKING_TYPE \<Rightarrow> state\<lparr>hasAskedFor := insert ''type'' (hasAskedFor state)\<rparr>
      | ASKING_TITLE \<Rightarrow> state\<lparr>hasAskedFor := insert ''title'' (hasAskedFor state)\<rparr>
      | ASKING_DESCRIPTION \<Rightarrow> state\<lparr>hasAskedFor := insert ''description'' (hasAskedFor state)\<rparr>
      | ASKING_PRIORITY \<Rightarrow> state\<lparr>hasAskedFor := insert ''priority'' (hasAskedFor state)\<rparr>
      | _ \<Rightarrow> state)"

text \<open>The cross mark U+274C that opens the message, in UTF-8.\<close>

definition crossMark :: string where
  "crossMark = [CHR 0xE2, CHR 0x9D, CHR 0x8C]"

definition missingMessage :: "string list \<Rightarrow> string" where
  "missingMessage missing =
     crossMark @ '' Missing required information: '' @ join '' and '' missing
       @ ''. Please provide both a title and description in your request.''"

definition cancelledMessage :: string where
  "cancelledMessage =
     ''No problem! Issue creation has been cancelled. Let me know if you need help with anything else.''"

definition startIssueCreationWithAI ::
  "IssueCreationFlow \<Rightarrow> (string \<Rightarrow> parsed option) \<Rightarrow> js_error + string \<Rightarrow> string
     \<Rightarrow> ConversationState \<Rightarrow> FlowResult \<times> ConversationState" where
  "startIssueCreationWithAI issueFlow json_parse completion userInput state0 =
     (let state = state0\<lparr>isCreatingIssue := True, currentStep := AI_EXTRACTING\<rparr>;
          extracted = extractParameters json_parse completion userInput
      in case validateExtractedParameters extracted of
           Inr validated \<Rightarrow>
             (let validation = validateRequiredParameters validated 0.6 in
              if isValid validation
              then (\<lparr>action = create_issue, message = None, searchQuery = None\<rparr>,
                    (convertExtractedToIssueData validated state)
                      \<lparr>extractedParameters := Some validated\<rparr>)
              else (\<lparr>action = error,
                      message = Some (missingMessage (missingRequired validation)),
                      searchQuery = None\<rparr>,
                    resetState state))
         | Inl err \<Rightarrow>
             (let state = startIssueCreation issueFlow userInput state;
                  nextStep = determineNextStep issueFlow state;
                  question = getQuestionForStep issueFlow nextStep;
                  state = markStepAsAsked nextStep (state\<lparr>currentStep := nextStep\<rparr>)
              in (\<lparr>action = continue, message = Some question, searchQuery = None\<rparr>, state)))"

definition handleIssueCreationFlow ::
  "IssueCreationFlow \<Rightarrow> string \<Rightarrow> ConversationState \<Rightarrow> FlowResult \<times> ConversationState" where
  "handleIssueCreationFlow issueFlow userInput state =
     (if checkForCancellation issueFlow userInput
      then (\<lparr>action = cancel, message = Some cancelledMessage, searchQuery = None\<rparr>,
            resetState state)
      else if currentStep state = CONFIRMING_DETAILS \<and> extractedParameters state \<noteq> None
      then
        (let lowerInput = toLowerCase userInput in
         if js_includes lowerInput ''yes'' \<or> js_includes lowerInput ''confirm''
            \<or> js_includes lowerInput ''create''
         then (\<lparr>action = create_issue, message = None, searchQuery = None\<rparr>, state)
         else if js_includes lowerInput ''no'' \<or> js_includes lowerInput ''cancel''
         then (\<lparr>action = cancel, message = Some cancelledMessage, searchQuery = None\<rparr>,
               resetState state)
         else (\<lparr>action = continue,
                 message = Some ''Please confirm by saying 'yes' to create the issue, or 'no' to cancel.'',
                 searchQuery = None\<rparr>, state))
      else
        (case processResponse issueFlow userInput (currentStep state) state of
           (result, state1) \<Rightarrow>
             if \<not> success result
             then (\<lparr>action = continue,
                     message = Some (case errorMessage result of
                                       None \<Rightarrow> ''Please try again.''
                                     | Some m \<Rightarrow> if m = [] then ''Please try again.'' else m),
                     searchQuery = None\<rparr>, state1)
             else if currentStep state1 = CONFIRMING_DETAILS
                     \<and> resultValue result = Some ''confirmed''
             then (\<lparr>action = create_issue, message = None, searchQuery = None\<rparr>, state1)
             else if currentStep state1 = CONFIRMING_DETAILS
                     \<and> resultValue result = Some ''cancelled''
             then (\<lparr>action = cancel, message = Some cancelledMessage, searchQuery = None\<rparr>,
                   resetState state1)
             else
               (let nextStep = determineNextStep issueFlow state1 in
                if nextStep = CONFIRMING_DETAILS
                then (\<lparr>action = continue,
                        message = Some (getQuestionForStep issueFlow nextStep),
                        searchQuery = None\<rparr>, state1\<lparr>currentStep := nextStep\<rparr>)
                else if nextStep = READY_TO_CREATE
                then (\<lparr>action = create_issue, message = None, searchQuery = None\<rparr>, state1)
                else (\<lparr>action = continue,
                        message = Some (getQuestionForStep issueFlow nextStep),
                        searchQuery = None\<rparr>,
                      markStepAsAsked nextStep (state1\<lparr>currentStep := nextStep\<rparr>)))))"

definition processUserInput ::
  "IssueCreationFlow \<Rightarrow> (string \<Rightarrow> parsed option) \<Rightarrow> js_error + string \<Rightarrow> string
     \<Rightarrow> ConversationState \<Rightarrow> FlowResult \<times> ConversationState" where
  "processUserInput issueFlow json_parse completion userInput state =
     (if isCreatingIssue state then handleIssueCreationFlow issueFlow userInput state
      else if detectsSearchIntent userInput
      then (\<lparr>action = search, message = None,
              searchQuery = Some (extractSearchQuery userInput)\<rparr>, state)
      else if detectsChatIntent userInput
      then (\<lparr>action = regular_chat, message = None, searchQuery = None\<rparr>, state)
      else startIssueCreationWithAI issueFlow json_parse completion userInput state)"

section \<open>Auxiliary definitions for the properties\<close>


text \<open>
  A completion whose JSON gives the title a null value with confidence 0.9,
  \<^verbatim>\<open>{"title":{"value":null,"confidence":0.9}}\<close>, and a \<open>JSON.parse\<close> that reads it.
\<close>

definition nullTitleResponse :: string where
  "nullTitleResponse =
     ''{'' @ [CHR 0x22] @ ''title'' @ [CHR 0x22] @ '':{'' @ [CHR 0x22] @ ''value'' @ [CHR 0x22]
       @ '':null,'' @ [CHR 0x22] @ ''confidence'' @ [CHR 0x22] @ '':0.9}}''"

definition nullTitleDoc :: wire_doc where
  "nullTitleDoc =
     \<lparr>w_title = WObj None (Some 0.9), w_type = WMissing, w_project = WMissing,
      w_priority = WMissing, w_description = WMissing\<rparr>"

definition nullTitleParse :: "string \<Rightarrow> parsed option" where
  "nullTitleParse s = (if s = nullTitleResponse then Some (ParsedDoc nullTitleDoc) else None)"



section \<open>Properties\<close>

subsection \<open>Required-field check\<close>

lemma js_not_iff: "js_not v = (v = JNull \<or> v = JStr [])"
  by (cases v) simp_all

text \<open>
  C2 (as stated, refuted). The claim says a field is reported missing exactly when its
  value is null or its confidence is below the threshold. A title that is the empty string
  with confidence 1 is not null and not below 0.6, and the check still reports it: \<open>!''\<close>
  is true in JavaScript.
\<close>

theorem validateRequired_empty_title_counterexample:
  "\<not> ((''title'' \<in> set (missingRequired (validateRequiredParameters
        \<lparr>title = \<lparr>value_f = JStr [], confidence = 1, source = ai_extracted\<rparr>,
         type = default_type, project = default_project, priority = default_priority,
         description = \<lparr>value_f = JStr ''d'', confidence = 1, source = ai_extracted\<rparr>\<rparr> 0.6)))
      = (JStr [] = JNull \<or> (1::real) < 0.6))"
  by (simp add: validateRequiredParameters_def)

text \<open>
  C2 (amended). For every extraction and every threshold, \<open>title\<close> is reported missing
  exactly when its value is null or the empty string, or its confidence is strictly below
  the threshold; the same holds for \<open>description\<close>; nothing else is ever reported; and
  \<open>isValid\<close> holds exactly when nothing is reported. At the default threshold 0.6 a
  confidence of 0.59 is below and a confidence of 0.6 is not.
\<close>

theorem validateRequired_missing_iff:
  "(''title'' \<in> set (missingRequired (validateRequiredParameters e t)))
     = (value_f (title e) = JNull \<or> value_f (title e) = JStr [] \<or> confidence (title e) < t)
   \<and> (''description'' \<in> set (missingRequired (validateRequiredParameters e t)))
     = (value_f (description e) = JNull \<or> value_f (description e) = JStr []
        \<or> confidence (description e) < t)
   \<and> (x \<in> set (missingRequired (validateRequiredParameters e t))
        = (x \<in> set (missingRequired (validateRequiredParameters e t))
           \<and> (x = ''title'' \<or> x = ''description'')))
   \<and> isValid (validateRequiredParameters e t)
       = (missingRequired (validateRequiredParameters e t) = [])
   \<and> ((0.59::real) < 0.6) \<and> \<not> ((0.6::real) < 0.6)"
  by (auto simp add: validateRequiredParameters_def js_not_iff)

theorem validateRequired_missing_iff_witness:
  "''title'' \<in> set (missingRequired (validateRequiredParameters
      (createDefaultExtraction\<lparr>title := \<lparr>value_f = JStr ''t'', confidence = 0.59,
                                            source = ai_extracted\<rparr>\<rparr>) 0.6))
   \<and> ''title'' \<notin> set (missingRequired (validateRequiredParameters
      (createDefaultExtraction\<lparr>title := \<lparr>value_f = JStr ''t'', confidence = 0.6,
                                            source = ai_extracted\<rparr>\<rparr>) 0.6))
   \<and> ''title'' \<in> set (missingRequired (validateRequiredParameters createDefaultExtraction 0.6))"
  using validateRequired_missing_iff
          [of "createDefaultExtraction\<lparr>title := \<lparr>value_f = JStr ''t'', confidence = 0.59,
                                                     source = ai_extracted\<rparr>\<rparr>" "0.6" "''title''"]
        validateRequired_missing_iff
          [of "createDefaultExtraction\<lparr>title := \<lparr>value_f = JStr ''t'', confidence = 0.6,
                                                     source = ai_extracted\<rparr>\<rparr>" "0.6" "''title''"]
        validateRequired_missing_iff [of createDefaultExtraction "0.6" "''title''"]
  by (simp add: createDefaultExtraction_def)

subsection \<open>Default application\<close>

lemma applyDefaults_type:
  "type (applyDefaults e) =
     (if value_f (type e) = JNull \<or> value_f (type e) = JStr [] \<or> confidence (type e) < 0.6
      then default_type else type e)"
  by (simp add: applyDefaults_def js_not_iff)

lemma applyDefaults_project:
  "project (applyDefaults e) =
     (if value_f (project e) = JNull \<or> value_f (project e) = JStr []
         \<or> confidence (project e) < 0.6
      then default_project else project e)"
  by (simp add: applyDefaults_def js_not_iff)

lemma applyDefaults_priority:
  "priority (applyDefaults e) =
     (if value_f (priority e) = JNull \<or> value_f (priority e) = JStr []
         \<or> confidence (priority e) < 0.6
      then default_priority else priority e)"
  by (simp add: applyDefaults_def js_not_iff)

lemma applyDefaults_title: "title (applyDefaults e) = title e"
  by (simp add: applyDefaults_def)

lemma applyDefaults_description: "description (applyDefaults e) = description e"
  by (simp add: applyDefaults_def)

lemma applyDefaults_idem: "applyDefaults (applyDefaults e) = applyDefaults e"
proof -
  have "type (applyDefaults (applyDefaults e)) = type (applyDefaults e)"
    by (simp add: applyDefaults_type default_type_def)
  moreover have "project (applyDefaults (applyDefaults e)) = project (applyDefaults e)"
    by (simp add: applyDefaults_project default_project_def)
  moreover have "priority (applyDefaults (applyDefaults e)) = priority (applyDefaults e)"
    by (simp add: applyDefaults_priority default_priority_def)
  ultimately show ?thesis
    by (simp add: ExtractedParameters.equality applyDefaults_title applyDefaults_description)
qed

text \<open>
  C5 (as stated, refuted). The claim says the default is substituted exactly when the
  confidence is below 0.6 or the value is null. A type whose value is the empty string, with
  confidence 0.9, is neither, and \<open>applyDefaults\<close> still replaces it by the default type.
\<close>

theorem applyDefaults_empty_type_counterexample:
  "\<not> ((type (applyDefaults
          (createDefaultExtraction\<lparr>type := \<lparr>value_f = JStr [], confidence = 0.9,
                                               source = ai_extracted\<rparr>\<rparr>)) = default_type)
        = ((0.9::real) < 0.6 \<or> JStr [] = JNull))"
  by (simp add: applyDefaults_type createDefaultExtraction_def)

text \<open>
  C5 (amended). \<open>applyDefaults\<close> is idempotent. It replaces \<open>type\<close>, \<open>project\<close> and
  \<open>priority\<close> by their defaults exactly when the field's value is null or the empty
  string, or its confidence is below 0.6, whatever the field's source; it leaves \<open>title\<close>
  and \<open>description\<close> as they are; and afterwards the values of \<open>type\<close>, \<open>project\<close> and
  \<open>priority\<close> are never null.
\<close>

theorem applyDefaults_spec:
  "applyDefaults (applyDefaults e) = applyDefaults e
   \<and> type (applyDefaults e) =
       (if value_f (type e) = JNull \<or> value_f (type e) = JStr [] \<or> confidence (type e) < 0.6
        then default_type else type e)
   \<and> project (applyDefaults e) =
       (if value_f (project e) = JNull \<or> value_f (project e) = JStr []
           \<or> confidence (project e) < 0.6
        then default_project else project e)
   \<and> priority (applyDefaults e) =
       (if value_f (priority e) = JNull \<or> value_f (priority e) = JStr []
           \<or> confidence (priority e) < 0.6
        then default_priority else priority e)
   \<and> title (applyDefaults e) = title e
   \<and> description (applyDefaults e) = description e
   \<and> value_f (type (applyDefaults e)) \<noteq> JNull
   \<and> value_f (project (applyDefaults e)) \<noteq> JNull
   \<and> value_f (priority (applyDefaults e)) \<noteq> JNull"
proof -
  have "value_f (type (applyDefaults e)) \<noteq> JNull"
    by (simp add: applyDefaults_type default_type_def)
  moreover have "value_f (project (applyDefaults e)) \<noteq> JNull"
    by (simp add: applyDefaults_project default_project_def)
  moreover have "value_f (priority (applyDefaults e)) \<noteq> JNull"
    by (simp add: applyDefaults_priority default_priority_def)
  ultimately show ?thesis
    using applyDefaults_idem [of e] applyDefaults_type [of e] applyDefaults_project [of e]
      applyDefaults_priority [of e] applyDefaults_title [of e] applyDefaults_description [of e]
    by simp
qed

theorem applyDefaults_spec_witness:
  "applyDefaults (applyDefaults createEmptyExtraction) = createDefaultExtraction
   \<and> type (applyDefaults (createDefaultExtraction\<lparr>type :=
        \<lparr>value_f = JStr ''Task'', confidence = 0.6, source = ai_extracted\<rparr>\<rparr>))
       = \<lparr>value_f = JStr ''Task'', confidence = 0.6, source = ai_extracted\<rparr>"
  using applyDefaults_spec [of createEmptyExtraction]
    applyDefaults_spec [of "createDefaultExtraction\<lparr>type :=
        \<lparr>value_f = JStr ''Task'', confidence = 0.6, source = ai_extracted\<rparr>\<rparr>"]
  by (simp add: createEmptyExtraction_def createDefaultExtraction_def default_type_def
        default_project_def default_priority_def ExtractedParameters.equality)

subsection \<open>Normalisation helpers\<close>





lemmas lower_eval = toLowerCase_def toLowerChar_def upper_letters_def lower_letters_def













subsection \<open>Intent probes\<close>

lemma login_creation_intent: "detectsIssueCreationIntent ''search for issues about login''"
  by code_simp

lemma login_no_chat: "\<not> detectsChatIntent ''search for issues about login''"
  by code_simp

lemma signup_no_creation_intent:
  "\<not> detectsIssueCreationIntent ''search for issues about signup''"
  by code_simp

lemma signup_search_intent: "detectsSearchIntent ''search for issues about signup''"
  by code_simp

lemma signup_query: "extractSearchQuery ''search for issues about signup'' = ''about signup''"
  by code_simp

text \<open>
  C8 (as stated, refuted). The claim says that for \<open>search for issues about login\<close> the
  classifier returns search intent, with \<open>detectsIssueCreationIntent\<close> false. The
  keywords are matched as substrings: \<open>login\<close> contains the creation keyword \<open>log\<close> and
  \<open>issues\<close> contains the issue keyword \<open>issue\<close>, so \<open>detectsIssueCreationIntent\<close> is
  true and \<open>detectsSearchIntent\<close> is false.
\<close>

theorem search_login_counterexample:
  "\<not> (detectsSearchIntent ''search for issues about login''
        \<and> \<not> detectsIssueCreationIntent ''search for issues about login'')"
  using login_creation_intent by simp

text \<open>
  C8 (amended). \<open>detectsSearchIntent\<close> holds of a text exactly when its lower-cased form
  contains \<open>search\<close> or \<open>find\<close>, and \<open>issue\<close> or \<open>ticket\<close>, and
  \<open>detectsIssueCreationIntent\<close> does not hold of it. For \<open>search for issues about login\<close>
  the creation probe holds, the search probe does not, and the controller, on a fresh
  state, starts AI-assisted creation. For \<open>search for issues about signup\<close> the search
  probe holds, the creation probe does not, and the controller returns the action
  \<open>search\<close> with the query \<open>about signup\<close>.
\<close>

theorem detectsSearchIntent_iff:
  "detectsSearchIntent text =
     ((js_includes (toLowerCase text) ''search'' \<or> js_includes (toLowerCase text) ''find'')
      \<and> (js_includes (toLowerCase text) ''issue'' \<or> js_includes (toLowerCase text) ''ticket'')
      \<and> \<not> detectsIssueCreationIntent text)
   \<and> detectsIssueCreationIntent ''search for issues about login''
   \<and> \<not> detectsSearchIntent ''search for issues about login''
   \<and> processUserInput issueFlow json_parse completion ''search for issues about login''
         initialState
       = startIssueCreationWithAI issueFlow json_parse completion
           ''search for issues about login'' initialState
   \<and> detectsSearchIntent ''search for issues about signup''
   \<and> \<not> detectsIssueCreationIntent ''search for issues about signup''
   \<and> processUserInput issueFlow json_parse completion ''search for issues about signup''
         initialState
       = (\<lparr>action = search, message = None, searchQuery = Some ''about signup''\<rparr>,
          initialState)"
proof -
  have a: "\<not> detectsSearchIntent ''search for issues about login''"
    using login_creation_intent by (simp add: detectsSearchIntent_def)
  have b: "\<not> isCreatingIssue initialState"
    by (simp add: initialState_def)
  have c: "processUserInput issueFlow json_parse completion ''search for issues about login''
             initialState
           = startIssueCreationWithAI issueFlow json_parse completion
               ''search for issues about login'' initialState"
    using a b login_no_chat by (simp add: processUserInput_def)
  have d: "processUserInput issueFlow json_parse completion ''search for issues about signup''
             initialState
           = (\<lparr>action = search, message = None, searchQuery = Some ''about signup''\<rparr>,
              initialState)"
    using b signup_search_intent signup_query by (simp add: processUserInput_def)
  have e: "detectsSearchIntent text =
     ((js_includes (toLowerCase text) ''search'' \<or> js_includes (toLowerCase text) ''find'')
      \<and> (js_includes (toLowerCase text) ''issue'' \<or> js_includes (toLowerCase text) ''ticket'')
      \<and> \<not> detectsIssueCreationIntent text)"
    by (simp add: detectsSearchIntent_def Let_def)
  show ?thesis
    using a c d e login_creation_intent signup_search_intent signup_no_creation_intent
    by blast
qed

theorem detectsSearchIntent_iff_witness:
  "detectsSearchIntent ''Find my ticket''"
proof -
  have "(js_includes (toLowerCase ''Find my ticket'') ''search''
          \<or> js_includes (toLowerCase ''Find my ticket'') ''find'')
        \<and> (js_includes (toLowerCase ''Find my ticket'') ''issue''
             \<or> js_includes (toLowerCase ''Find my ticket'') ''ticket'')
        \<and> \<not> detectsIssueCreationIntent ''Find my ticket''"
    by code_simp
  then show ?thesis
    using detectsSearchIntent_iff [of "''Find my ticket''"] by blast
qed

subsection \<open>Lexical extraction\<close>

lemma extract_single_quoted:
  "extractExplicitInformation (''Create a bug called 'API Error'' @ [CHR 0x27]) =
     \<lparr>project_d = None, issueType = Some ''Bug'', title_d = None, description_d = None,
      priority_d = None\<rparr>"
  by code_simp

lemma extract_double_quoted:
  "extractExplicitInformation
     (''Create a bug called '' @ [CHR 0x22] @ ''API Error'' @ [CHR 0x22]) =
     \<lparr>project_d = None, issueType = Some ''Bug'', title_d = Some ''API Error'',
      description_d = None, priority_d = None\<rparr>"
  by code_simp

text \<open>
  C9 (as stated, refuted). For \<open>Create a bug called 'API Error'\<close> the claim expects the
  title \<open>API Error\<close>. The title pattern is \<^verbatim>\<open>/"([^"]+)"/\<close>: it accepts double quotes
  only, and the utterance has single quotes, so no title is extracted.
\<close>

theorem extract_title_counterexample:
  "title_d (extractExplicitInformation (''Create a bug called 'API Error'' @ [CHR 0x27]))
     \<noteq> Some ''API Error''"
  using extract_single_quoted by simp

text \<open>
  C9 (amended). For \<open>Create a bug called 'API Error'\<close> the lexical extractor recovers the
  issue type \<open>Bug\<close> and nothing else: no title, because the title pattern accepts double
  quotes only. For the same utterance with the title in double quotes it recovers the issue
  type \<open>Bug\<close> and the title \<open>API Error\<close>.
\<close>

theorem extract_bug_api_error:
  "issueType (extractExplicitInformation (''Create a bug called 'API Error'' @ [CHR 0x27]))
     = Some ''Bug''
   \<and> title_d (extractExplicitInformation (''Create a bug called 'API Error'' @ [CHR 0x27]))
     = None
   \<and> issueType (extractExplicitInformation
        (''Create a bug called '' @ [CHR 0x22] @ ''API Error'' @ [CHR 0x22])) = Some ''Bug''
   \<and> title_d (extractExplicitInformation
        (''Create a bug called '' @ [CHR 0x22] @ ''API Error'' @ [CHR 0x22]))
     = Some ''API Error''"
  using extract_single_quoted extract_double_quoted by simp


subsection \<open>Parsing the completion\<close>




lemma fallbackLoop_nonempty: "fallbackLoop ps u = Some t \<Longrightarrow> t \<noteq> []"
  by (induction ps) (auto split: option.splits if_splits)

lemma fallback_title:
  "title (fallbackExtraction u) =
     (case fallbackLoop titlePatterns u of
        None \<Rightarrow> \<lparr>value_f = JNull, confidence = 0, source = ai_extracted\<rparr>
      | Some t \<Rightarrow> \<lparr>value_f = JStr t, confidence = 0.9, source = ai_extracted\<rparr>)"
  by (simp add: fallbackExtraction_def createEmptyExtraction_def Let_def split: option.split)

lemma fallback_description:
  "description (fallbackExtraction u) =
     (case fallbackLoop descriptionPatterns u of
        None \<Rightarrow> \<lparr>value_f = JNull, confidence = 0, source = ai_extracted\<rparr>
      | Some t \<Rightarrow> \<lparr>value_f = JStr t, confidence = 0.9, source = ai_extracted\<rparr>)"
  by (simp add: fallbackExtraction_def createEmptyExtraction_def Let_def split: option.split)


lemma fallback_title_js_not:
  "js_not (value_f (title (fallbackExtraction u))) = (value_f (title (fallbackExtraction u)) = JNull)"
  by (auto simp add: fallback_title split: option.split dest: fallbackLoop_nonempty)

lemma fallback_description_js_not:
  "js_not (value_f (description (fallbackExtraction u)))
     = (value_f (description (fallbackExtraction u)) = JNull)"
  by (auto simp add: fallback_description split: option.split dest: fallbackLoop_nonempty)








lemma fallback_hello: "fallbackExtraction ''hello'' = createEmptyExtraction"
  by code_simp


subsection \<open>extractParameters\<close>

lemma try_result_defaulted:
  "extractParameters_try json_parse completion userInput = Inr r \<Longrightarrow> \<exists>x. r = applyDefaults x"
  by (auto simp add: extractParameters_try_def Let_def split: sum.splits if_splits)

lemma applyDefaults_populated:
  "value_f (type (applyDefaults e)) \<noteq> JNull \<and> value_f (project (applyDefaults e)) \<noteq> JNull
   \<and> value_f (priority (applyDefaults e)) \<noteq> JNull"
  by (simp add: applyDefaults_type applyDefaults_project applyDefaults_priority
        default_type_def default_project_def default_priority_def)

lemma extractParameters_caught:
  "extractParameters_try json_parse completion userInput = Inl e \<Longrightarrow>
   extractParameters json_parse completion userInput =
     (if value_f (title (fallbackExtraction userInput)) = JNull
         \<and> value_f (description (fallbackExtraction userInput)) = JNull
      then createDefaultExtraction else applyDefaults (fallbackExtraction userInput))"
  by (simp add: extractParameters_def Let_def applyDefaults_title applyDefaults_description
        fallback_title_js_not fallback_description_js_not)

lemma extractParameters_populated:
  "value_f (type (extractParameters json_parse completion userInput)) \<noteq> JNull
   \<and> value_f (project (extractParameters json_parse completion userInput)) \<noteq> JNull
   \<and> value_f (priority (extractParameters json_parse completion userInput)) \<noteq> JNull"
proof (cases "extractParameters_try json_parse completion userInput")
  case (Inl e)
  show ?thesis
    using applyDefaults_populated [of "fallbackExtraction userInput"]
    by (simp add: extractParameters_caught [OF Inl] createDefaultExtraction_def)
next
  case (Inr r)
  then obtain x where "r = applyDefaults x"
    using try_result_defaulted by blast
  with Inr show ?thesis
    using applyDefaults_populated [of x] by (simp add: extractParameters_def)
qed

text \<open>
  C1. \<open>extractParameters\<close> returns an extraction for every input text, every
  \<open>JSON.parse\<close> and every outcome of the completion request: a result of the guarded
  block is returned as it is, and an error thrown in it (the request fails, or its content
  is empty) is caught and answered by the lexical fallback. If the fallback recovers
  neither a title nor a description, the result is exactly the canonical extraction: type
  \<open>Bug\<close>, project \<open>FV Demo (Issues)\<close>, priority \<open>Medium\<close>, each with confidence 1
  and source \<open>default\<close>, and title and description null with confidence 0; otherwise it
  is the fallback's extraction with the defaults applied. In every case type, project
  and priority of the result are populated.
\<close>

theorem extractParameters_always_returns:
  "(extractParameters_try json_parse completion userInput = Inr r \<longrightarrow>
      extractParameters json_parse completion userInput = r)
   \<and> (extractParameters_try json_parse completion userInput = Inl e \<longrightarrow>
      extractParameters json_parse completion userInput =
        (if value_f (title (fallbackExtraction userInput)) = JNull
            \<and> value_f (description (fallbackExtraction userInput)) = JNull
         then \<lparr>title = \<lparr>value_f = JNull, confidence = 0, source = ai_extracted\<rparr>,
               type = \<lparr>value_f = JStr ''Bug'', confidence = 1, source = default_source\<rparr>,
               project = \<lparr>value_f = JStr ''FV Demo (Issues)'', confidence = 1,
                          source = default_source\<rparr>,
               priority = \<lparr>value_f = JStr ''Medium'', confidence = 1, source = default_source\<rparr>,
               description = \<lparr>value_f = JNull, confidence = 0, source = ai_extracted\<rparr>\<rparr>
         else applyDefaults (fallbackExtraction userInput)))
   \<and> extractParameters_try json_parse (Inl e) userInput = Inl e
   \<and> extractParameters_try json_parse (Inr []) userInput
       = Inl (Error ''No response from AI extraction'')
   \<and> value_f (type (extractParameters json_parse completion userInput)) \<noteq> JNull
   \<and> value_f (project (extractParameters json_parse completion userInput)) \<noteq> JNull
   \<and> value_f (priority (extractParameters json_parse completion userInput)) \<noteq> JNull"
proof -
  have a: "extractParameters_try json_parse completion userInput = Inr r \<longrightarrow>
      extractParameters json_parse completion userInput = r"
    by (simp add: extractParameters_def)
  have b: "extractParameters_try json_parse completion userInput = Inl e \<longrightarrow>
      extractParameters json_parse completion userInput =
        (if value_f (title (fallbackExtraction userInput)) = JNull
            \<and> value_f (description (fallbackExtraction userInput)) = JNull
         then \<lparr>title = \<lparr>value_f = JNull, confidence = 0, source = ai_extracted\<rparr>,
               type = \<lparr>value_f = JStr ''Bug'', confidence = 1, source = default_source\<rparr>,
               project = \<lparr>value_f = JStr ''FV Demo (Issues)'', confidence = 1,
                          source = default_source\<rparr>,
               priority = \<lparr>value_f = JStr ''Medium'', confidence = 1, source = default_source\<rparr>,
               description = \<lparr>value_f = JNull, confidence = 0, source = ai_extracted\<rparr>\<rparr>
         else applyDefaults (fallbackExtraction userInput))"
    using extractParameters_caught [of json_parse completion userInput e]
    by (simp add: createDefaultExtraction_def)
  have c: "extractParameters_try json_parse (Inl e) userInput = Inl e"
    by (simp add: extractParameters_try_def)
  have d: "extractParameters_try json_parse (Inr []) userInput
       = Inl (Error ''No response from AI extraction'')"
    by (simp add: extractParameters_try_def)
  show ?thesis
    using a b c d extractParameters_populated [of json_parse completion userInput]
    by blast
qed

theorem extractParameters_always_returns_witness:
  "extractParameters nullTitleParse (Inl CompletionFailed) ''hello'' = createDefaultExtraction
   \<and> extractParameters nullTitleParse (Inr []) ''hello'' = createDefaultExtraction"
proof -
  have a: "extractParameters_try nullTitleParse (Inl CompletionFailed) ''hello''
             = Inl CompletionFailed"
    by (simp add: extractParameters_try_def)
  have b: "extractParameters_try nullTitleParse (Inr []) ''hello''
             = Inl (Error ''No response from AI extraction'')"
    by (simp add: extractParameters_try_def)
  have c: "value_f (title (fallbackExtraction ''hello'')) = JNull
           \<and> value_f (description (fallbackExtraction ''hello'')) = JNull"
    by (simp add: fallback_hello createEmptyExtraction_def)
  show ?thesis
    using a b c
      extractParameters_always_returns [of nullTitleParse "Inl CompletionFailed" "''hello''"
        undefined CompletionFailed]
      extractParameters_always_returns [of nullTitleParse "Inr []" "''hello''"
        undefined "Error ''No response from AI extraction''"]
    by (simp add: createDefaultExtraction_def)
qed

subsection \<open>Project resolution\<close>

lemma validateType_project: "project (validateType e) = project e"
  by (simp add: validateType_def)

lemma validatePriority_project: "project (validatePriority e) = project e"
  by (simp add: validatePriority_def)

lemma trim_subset: "set (trim s) \<subseteq> set s"
proof -
  have "set (dropWhile isSpace (rev (dropWhile isSpace s))) \<subseteq> set (rev (dropWhile isSpace s))"
    by (meson set_dropWhileD subsetI)
  also have "\<dots> \<subseteq> set s"
    using set_dropWhileD by fastforce
  finally show ?thesis
    by (simp add: trim_def)
qed

lemma toLowerChar_not_upper: "toLowerChar c \<notin> set upper_letters"
  by (simp add: toLowerChar_def upper_letters_def lower_letters_def)

lemma normalized_no_upper: "c \<in> set (trim (toLowerCase s)) \<Longrightarrow> c \<notin> set upper_letters"
  using trim_subset [of "toLowerCase s"] toLowerChar_not_upper
  by (auto simp add: toLowerCase_def)

lemma upper_differs:
  "x \<in> set name \<Longrightarrow> x \<in> set upper_letters \<Longrightarrow> trim (toLowerCase s) \<noteq> name"
  using normalized_no_upper by blast

lemma prototype_members_lower:
  assumes "trim (toLowerCase s) \<in> set objectPrototypeMembers"
  shows "trim (toLowerCase s) = ''constructor'' \<or> trim (toLowerCase s) = ''__proto__''"
proof -
  have "trim (toLowerCase s) \<noteq> ''hasOwnProperty''"
    by (rule upper_differs [of "CHR ''O''"]) (simp_all add: upper_letters_def)
  moreover have "trim (toLowerCase s) \<noteq> ''isPrototypeOf''"
    by (rule upper_differs [of "CHR ''O''"]) (simp_all add: upper_letters_def)
  moreover have "trim (toLowerCase s) \<noteq> ''propertyIsEnumerable''"
    by (rule upper_differs [of "CHR ''I''"]) (simp_all add: upper_letters_def)
  moreover have "trim (toLowerCase s) \<noteq> ''toLocaleString''"
    by (rule upper_differs [of "CHR ''L''"]) (simp_all add: upper_letters_def)
  moreover have "trim (toLowerCase s) \<noteq> ''toString''"
    by (rule upper_differs [of "CHR ''S''"]) (simp_all add: upper_letters_def)
  moreover have "trim (toLowerCase s) \<noteq> ''valueOf''"
    by (rule upper_differs [of "CHR ''O''"]) (simp_all add: upper_letters_def)
  moreover have "trim (toLowerCase s) \<noteq> ''__defineGetter__''"
    by (rule upper_differs [of "CHR ''G''"]) (simp_all add: upper_letters_def)
  moreover have "trim (toLowerCase s) \<noteq> ''__defineSetter__''"
    by (rule upper_differs [of "CHR ''S''"]) (simp_all add: upper_letters_def)
  moreover have "trim (toLowerCase s) \<noteq> ''__lookupGetter__''"
    by (rule upper_differs [of "CHR ''G''"]) (simp_all add: upper_letters_def)
  moreover have "trim (toLowerCase s) \<noteq> ''__lookupSetter__''"
    by (rule upper_differs [of "CHR ''S''"]) (simp_all add: upper_letters_def)
  ultimately show ?thesis
    using assms by (simp add: objectPrototypeMembers_def)
qed

lemma full_names_not_found:
  assumes "trim (toLowerCase s) \<notin> fst ` set projectMapping"
  shows "find (\<lambda>name. toLowerCase name = trim (toLowerCase s) \<or> trim (toLowerCase s) = name)
           validFullNames = None"
proof -
  have a: "toLowerCase ''FV Demo (Product)'' \<in> fst ` set projectMapping"
    "toLowerCase ''FV Demo (Issues)'' \<in> fst ` set projectMapping"
    "toLowerCase ''FV Engineering'' \<in> fst ` set projectMapping"
    "toLowerCase ''FV Product'' \<in> fst ` set projectMapping"
    by (simp_all add: projectMapping_def lower_eval)
  have b: "trim (toLowerCase s) \<noteq> ''FV Demo (Product)''"
    "trim (toLowerCase s) \<noteq> ''FV Demo (Issues)''"
    "trim (toLowerCase s) \<noteq> ''FV Engineering''"
    "trim (toLowerCase s) \<noteq> ''FV Product''"
    by (rule upper_differs [of "CHR ''F''"], simp, simp add: upper_letters_def)+
  have c: "toLowerCase ''FV Demo (Product)'' \<noteq> trim (toLowerCase s)"
    "toLowerCase ''FV Demo (Issues)'' \<noteq> trim (toLowerCase s)"
    "toLowerCase ''FV Engineering'' \<noteq> trim (toLowerCase s)"
    "toLowerCase ''FV Product'' \<noteq> trim (toLowerCase s)"
    using a assms by metis+
  show ?thesis
    using b c by (simp add: validFullNames_def)
qed

lemma validate_project_unmatched:
  assumes "value_f (project e) = JStr s" and "s \<noteq> []"
    and "trim (toLowerCase s) \<notin> fst ` set projectMapping"
    and "trim (toLowerCase s) \<noteq> ''constructor''" and "trim (toLowerCase s) \<noteq> ''__proto__''"
  shows "validateExtractedParameters e =
           Inr ((validatePriority (validateType e))\<lparr>project :=
                  \<lparr>value_f = JStr ''FV Demo (Issues)'', confidence = 1,
                   source = default_source\<rparr>\<rparr>)"
proof -
  have "trim (toLowerCase s) \<notin> set objectPrototypeMembers"
    using assms(4,5) prototype_members_lower by blast
  moreover have "map_of projectMapping (trim (toLowerCase s)) = None"
    using assms(3) by (simp add: map_of_eq_None_iff)
  ultimately have "js_property projectMapping (trim (toLowerCase s)) = None"
    by (simp add: js_property_def)
  then show ?thesis
    using assms(1,2) full_names_not_found [OF assms(3)]
    by (simp add: validateExtractedParameters_def validateProject_def validateType_project
          validatePriority_project Let_def)
qed

lemma validate_project_mapped:
  assumes "value_f (project e) = JStr s" and "s \<noteq> []"
    and "map_of projectMapping (trim (toLowerCase s)) = Some canonical"
  shows "validateExtractedParameters e =
           Inr ((validatePriority (validateType e))\<lparr>project :=
                  (project e)\<lparr>value_f := JStr canonical\<rparr>\<rparr>)"
  using assms
  by (simp add: validateExtractedParameters_def validateProject_def validateType_project
        validatePriority_project Let_def js_property_def)

lemma normalized_literals:
  "trim (toLowerCase ''eng'') = ''eng''" "trim (toLowerCase ''product'') = ''product''"
  "trim (toLowerCase ''fv'') = ''fv''" "trim (toLowerCase ''constructor'') = ''constructor''"
  "trim (toLowerCase '' ENG '') = ''eng''"
  by (simp_all add: trim_def isSpace_def lower_eval)

lemma validate_project_eng:
  "value_f (project e) = JStr ''eng'' \<Longrightarrow>
   validateExtractedParameters e =
     Inr ((validatePriority (validateType e))\<lparr>project :=
            (project e)\<lparr>value_f := JStr ''FV Engineering''\<rparr>\<rparr>)"
  by (rule validate_project_mapped [of e "''eng''"])
     (simp_all add: normalized_literals projectMapping_def)

lemma validate_project_product:
  "value_f (project e) = JStr ''product'' \<Longrightarrow>
   validateExtractedParameters e =
     Inr ((validatePriority (validateType e))\<lparr>project :=
            \<lparr>value_f = JStr ''FV Demo (Issues)'', confidence = 1, source = default_source\<rparr>\<rparr>)"
  by (rule validate_project_unmatched [of e "''product''"])
     (simp_all add: normalized_literals projectMapping_def)

lemma validate_project_fv:
  "value_f (project e) = JStr ''fv'' \<Longrightarrow>
   validateExtractedParameters e =
     Inr ((validatePriority (validateType e))\<lparr>project :=
            \<lparr>value_f = JStr ''FV Demo (Issues)'', confidence = 1, source = default_source\<rparr>\<rparr>)"
  by (rule validate_project_unmatched [of e "''fv''"])
     (simp_all add: normalized_literals projectMapping_def)

text \<open>
  C6. The claim says that \<open>eng\<close> resolves to \<open>FV Engineering\<close> and that \<open>product\<close>,
  \<open>fv\<close> and every other unmatched project value resolve to the default project with
  confidence 1 and source \<open>default\<close>. The lemmas above show this for \<open>eng\<close>,
  \<open>product\<close>, \<open>fv\<close> and for every value whose normal form is neither a key of the
  table nor \<open>constructor\<close> nor \<open>__proto__\<close>. For those two the property read on the
  object literal finds an inherited member of \<open>Object.prototype\<close>, which is truthy, so
  the branch of the exact matches runs: the project value \<open>constructor\<close> becomes the
  function \<open>Object\<close>, with the confidence and the source it had, and not the default
  project.
\<close>

theorem validate_project_constructor:
  "validateExtractedParameters
     (createDefaultExtraction\<lparr>project :=
        \<lparr>value_f = JStr ''constructor'', confidence = 0.9, source = ai_extracted\<rparr>\<rparr>)
   = Inr (createDefaultExtraction\<lparr>project :=
        \<lparr>value_f = JBuiltin ''Object.prototype.constructor'', confidence = 0.9,
         source = ai_extracted\<rparr>\<rparr>)"
  by (simp add: validateExtractedParameters_def validateProject_def validateType_def
        validatePriority_def validTypes_def validPriorities_def createDefaultExtraction_def
        normalized_literals js_property_def projectMapping_def objectPrototypeMembers_def)

subsection \<open>AI-assisted creation\<close>






lemma join_and:
  "join '' and '' [''title'', ''description''] = ''title and description''"
  "join '' and '' [''title''] = ''title''"
  "join '' and '' [''description''] = ''description''"
  by simp_all






subsection \<open>Confirmation step\<close>




end
